theory Spec2Isabelle
  imports Complex_Main
begin

section \<open>Python values used by the order code\<close>

subsection \<open>Decimal\<close>

text \<open>
  A finite \<^verbatim>\<open>decimal.Decimal\<close> is a coefficient and an exponent: \<^verbatim>\<open>Decimal("18.00")\<close> is
  coefficient 1800, exponent -2. Addition keeps the smaller exponent, multiplication adds
  the exponents, as Python does. The context precision (28 significant digits) is not
  modelled: the operations below are the unrounded ones, which is what Python computes
  as long as a result has at most 28 digits. NaN, infinities and the sign of zero are
  left out.
\<close>

datatype decimal = Decimal (dcoef: int) (dexp: int)

definition dec_val :: "decimal \<Rightarrow> rat" where
  "dec_val d =
     (if 0 \<le> dexp d then of_int (dcoef d) * 10 ^ nat (dexp d)
      else of_int (dcoef d) / 10 ^ nat (- dexp d))"

definition dec_add :: "decimal \<Rightarrow> decimal \<Rightarrow> decimal" where
  "dec_add a b =
     (let e = min (dexp a) (dexp b)
      in Decimal (dcoef a * 10 ^ nat (dexp a - e) + dcoef b * 10 ^ nat (dexp b - e)) e)"

definition dec_neg :: "decimal \<Rightarrow> decimal" where
  "dec_neg a = Decimal (- dcoef a) (dexp a)"

definition dec_sub :: "decimal \<Rightarrow> decimal \<Rightarrow> decimal" where
  "dec_sub a b = dec_add a (dec_neg b)"

definition dec_mul :: "decimal \<Rightarrow> decimal \<Rightarrow> decimal" where
  "dec_mul a b = Decimal (dcoef a * dcoef b) (dexp a + dexp b)"

text \<open>\<^verbatim>\<open>Decimal(str(n))\<close> for a Python int \<open>n\<close>.\<close>

definition dec_of_int :: "int \<Rightarrow> decimal" where
  "dec_of_int n = Decimal n 0"

text \<open>
  Division, after \<^verbatim>\<open>Decimal.__truediv__\<close> at precision 28: the dividend is shifted so
  that the integer quotient has 29 digits; an exact quotient then drops trailing zeros
  until it reaches the ideal exponent, an inexact one keeps a sticky last digit. The
  final rounding of an inexact quotient to 28 digits is not modelled. Division by zero
  raises in Python; the only divisor in the code modelled here is the constant
  \<^verbatim>\<open>Decimal("100.00")\<close>.
\<close>

function ndigits :: "nat \<Rightarrow> nat" where
  "ndigits n = (if n < 10 then 1 else Suc (ndigits (n div 10)))"
  by pat_completeness auto
termination
  by (relation "measure id") auto

declare ndigits.simps [simp del]

fun strip_zeros :: "nat \<Rightarrow> int \<Rightarrow> int \<Rightarrow> decimal" where
  "strip_zeros 0 c e = Decimal c e"
| "strip_zeros (Suc k) c e =
     (if c mod 10 = 0 then strip_zeros k (c div 10) (e + 1) else Decimal c e)"

definition dec_div :: "decimal \<Rightarrow> decimal \<Rightarrow> decimal" where
  "dec_div a b =
     (if dcoef a = 0 then Decimal 0 (dexp a - dexp b)
      else
        let sg = sgn (dcoef a) * sgn (dcoef b);
            n1 = nat \<bar>dcoef a\<bar>; n2 = nat \<bar>dcoef b\<bar>;
            shift = int (ndigits n2) - int (ndigits n1) + 28 + 1;
            e = dexp a - dexp b - shift;
            num = (if 0 \<le> shift then n1 * 10 ^ nat shift else n1);
            den = (if 0 \<le> shift then n2 else n2 * 10 ^ nat (- shift));
            q = int (num div den); r = num mod den
        in if r \<noteq> 0 then Decimal (sg * (if q mod 5 = 0 then q + 1 else q)) e
           else (case strip_zeros (nat (dexp a - dexp b - e)) q e of
                   Decimal c e' \<Rightarrow> Decimal (sg * c) e'))"

subsection \<open>Formatting integers\<close>

text \<open>\<^verbatim>\<open>str(n)\<close> of a Python int, as the f-strings of the error messages use it.\<close>

function str_nat :: "nat \<Rightarrow> string" where
  "str_nat n =
     (if n < 10 then [''0123456789'' ! n]
      else str_nat (n div 10) @ [''0123456789'' ! (n mod 10)])"
  by pat_completeness auto
termination
  by (relation "measure id") auto

declare str_nat.simps [simp del]

definition str_int :: "int \<Rightarrow> string" where
  "str_int i = (if i < 0 then CHR ''-'' # str_nat (nat (- i)) else str_nat (nat i))"

text \<open>\<^verbatim>\<open>', '.join(xs)\<close>.\<close>

fun join_comma :: "string list \<Rightarrow> string" where
  "join_comma [] = []"
| "join_comma [x] = x"
| "join_comma (x # y # ys) = x @ '', '' @ join_comma (y # ys)"

section \<open>Data model\<close>

text \<open>
  Primary keys are UUIDs, handled as strings as the services do. Timestamps are numbers.
  Every model class is a record of the fields the modelled code reads or writes; a
  database table is the list of its rows.
\<close>

type_synonym uuid = string
type_synonym timestamp = nat

datatype error =
    ValidationError string
  | PermissionDenied string
  | ValueError string
  | KeyError string
  | TypeError string
  | IntegrityError string

record user =
  u_id :: uuid
  is_authenticated :: bool
  is_staff :: bool

record product =
  p_id :: uuid
  title :: string
  slug :: string
  p_status :: string

record variant =
  v_id :: uuid
  v_product :: uuid
  v_sku :: string
  attributes :: "(string \<times> string) list"
  price :: decimal
  v_discount_amount :: decimal
  stock :: int
  v_is_default :: bool
  v_is_active :: bool

record address =
  a_id :: uuid
  a_user :: "uuid option"
  address_type :: string
  first_name :: string
  last_name :: string
  company :: string
  phone :: string
  email :: string
  address_line1 :: string
  address_line2 :: string
  city :: string
  state :: string
  postal_code :: string
  country :: string
  is_default :: bool
  a_is_active :: bool
  instructions :: string
  a_created_at :: timestamp

record order =
  o_id :: uuid
  o_user :: "uuid option"
  guest_email :: string
  guest_first_name :: string
  guest_last_name :: string
  guest_phone :: string
  order_number :: string
  status :: string
  payment_status :: string
  payment_method :: string
  shipping_address :: uuid
  billing_address :: uuid
  subtotal :: decimal
  shipping_cost :: decimal
  tax_amount :: decimal
  tax_rate :: decimal
  discount_amount :: decimal
  total :: decimal
  currency :: string
  shipping_method :: string
  carrier :: string
  payment_intent_id :: string
  payment_receipt_url :: string
  customer_note :: string
  admin_note :: string
  paid_at :: "timestamp option"
  confirmed_at :: "timestamp option"
  cancelled_at :: "timestamp option"

record order_item =
  oi_id :: uuid
  oi_order :: uuid
  oi_variant :: "uuid option"
  product_title :: string
  product_slug :: string
  variant_attributes :: "(string \<times> string) list"
  oi_sku :: string
  unit_price :: decimal
  oi_discount_amount :: decimal
  quantity :: int
  total_price :: decimal

record db =
  products :: "product list"
  variants :: "variant list"
  addresses :: "address list"
  orders :: "order list"
  order_items :: "order_item list"

text \<open>
  What the code draws from outside during one service call: the clock
  (\<^verbatim>\<open>timezone.now()\<close> and its \<^verbatim>\<open>strftime\<close> renderings), \<^verbatim>\<open>random.randint(1000, 9999)\<close>
  and the \<^verbatim>\<open>uuid.uuid4()\<close> defaults of the rows it creates.
\<close>

record env =
  now :: timestamp
  date_str :: string
  randint :: nat
  address_uuid :: "string \<Rightarrow> uuid"
  order_uuid :: uuid
  item_uuid :: "nat \<Rightarrow> uuid"

definition STATUS_PENDING :: string where "STATUS_PENDING = ''pending''"
definition STATUS_CONFIRMED :: string where "STATUS_CONFIRMED = ''confirmed''"
definition STATUS_PROCESSING :: string where "STATUS_PROCESSING = ''processing''"
definition STATUS_SHIPPED :: string where "STATUS_SHIPPED = ''shipped''"
definition STATUS_DELIVERED :: string where "STATUS_DELIVERED = ''delivered''"
definition STATUS_CANCELLED :: string where "STATUS_CANCELLED = ''cancelled''"
definition STATUS_REFUNDED :: string where "STATUS_REFUNDED = ''refunded''"

definition STATUS_CHOICES :: "string list" where
  "STATUS_CHOICES =
     [STATUS_PENDING, STATUS_CONFIRMED, STATUS_PROCESSING, STATUS_SHIPPED,
      STATUS_DELIVERED, STATUS_CANCELLED, STATUS_REFUNDED]"

definition PAYMENT_PENDING :: string where "PAYMENT_PENDING = ''pending''"


text \<open>
  \<^verbatim>\<open>transaction.atomic\<close>: a body that raises leaves the database as it was before the body
  ran.
\<close>

definition atomic :: "(db \<Rightarrow> db \<times> (error + 'a)) \<Rightarrow> db \<Rightarrow> db \<times> (error + 'a)" where
  "atomic body d =
     (case body d of
        (d', Inl e) \<Rightarrow> (d, Inl e)
      | (d', Inr x) \<Rightarrow> (d', Inr x))"

section \<open>orders/models.py\<close>

subsection \<open>Order\<close>

text \<open>
  The row write of \<^verbatim>\<open>super().save()\<close>: an insert forced by \<^verbatim>\<open>objects.create\<close> fails on an
  existing primary key; \<^verbatim>\<open>order_number\<close> is declared \<^verbatim>\<open>unique=True\<close>, so a write whose
  number another row already has fails; otherwise the row with this key is replaced,
  or the row is added. Rounding of decimal columns by the database is not modelled:
  the row holds the values of the object.
\<close>

definition Order_write :: "bool \<Rightarrow> order \<Rightarrow> db \<Rightarrow> db \<times> (error + order)" where
  "Order_write force_insert self d =
     (if force_insert \<and> (\<exists>r \<in> set (orders d). o_id r = o_id self)
      then (d, Inl (IntegrityError ''orders.id''))
      else if \<exists>r \<in> set (orders d). o_id r \<noteq> o_id self \<and> order_number r = order_number self
      then (d, Inl (IntegrityError ''orders.order_number''))
      else if \<exists>r \<in> set (orders d). o_id r = o_id self
      then (d\<lparr>orders := map (\<lambda>r. if o_id r = o_id self then self else r) (orders d)\<rparr>, Inr self)
      else (d\<lparr>orders := orders d @ [self]\<rparr>, Inr self))"

definition Order_assign :: "env \<Rightarrow> order \<Rightarrow> order" where
  "Order_assign ev self =
     (let self1 =
            (if order_number self = []
             then self\<lparr>order_number := ''ORD'' @ date_str ev @ str_nat (randint ev)\<rparr>
             else self)
      in self1\<lparr>total :=
           dec_sub (dec_add (dec_add (subtotal self1) (shipping_cost self1)) (tax_amount self1))
             (discount_amount self1)\<rparr>)"

definition Order_save :: "env \<Rightarrow> bool \<Rightarrow> order \<Rightarrow> db \<Rightarrow> db \<times> (error + order)" where
  "Order_save ev force_insert self d = Order_write force_insert (Order_assign ev self) d"


subsection \<open>OrderItem\<close>

definition OrderItem_assign :: "db \<Rightarrow> order_item \<Rightarrow> order_item" where
  "OrderItem_assign d self =
     (let self1 =
            (case oi_variant self of
               None \<Rightarrow> self
             | Some vid \<Rightarrow>
                 if product_title self \<noteq> [] then self
                 else (case find (\<lambda>v. v_id v = vid) (variants d) of
                         None \<Rightarrow> self
                       | Some v \<Rightarrow>
                           (case find (\<lambda>p. p_id p = v_product v) (products d) of
                              None \<Rightarrow> self
                            | Some p \<Rightarrow>
                                self\<lparr>product_title := title p, product_slug := slug p,
                                     variant_attributes := attributes v, oi_sku := v_sku v\<rparr>)));
          up = unit_price self1;
          discount = oi_discount_amount self1;
          q = dec_of_int (quantity self1)
      in self1\<lparr>total_price := dec_mul (dec_sub up discount) q\<rparr>)"

definition OrderItem_write :: "bool \<Rightarrow> order_item \<Rightarrow> db \<Rightarrow> db \<times> (error + order_item)" where
  "OrderItem_write force_insert self d =
     (if force_insert \<and> (\<exists>r \<in> set (order_items d). oi_id r = oi_id self)
      then (d, Inl (IntegrityError ''order_items.id''))
      else if \<exists>r \<in> set (order_items d). oi_id r = oi_id self
      then (d\<lparr>order_items := map (\<lambda>r. if oi_id r = oi_id self then self else r) (order_items d)\<rparr>,
            Inr self)
      else (d\<lparr>order_items := order_items d @ [self]\<rparr>, Inr self))"

definition OrderItem_save :: "bool \<Rightarrow> order_item \<Rightarrow> db \<Rightarrow> db \<times> (error + order_item)" where
  "OrderItem_save force_insert self d = OrderItem_write force_insert (OrderItem_assign d self) d"

section \<open>products/models.py\<close>

text \<open>
  \<^verbatim>\<open>ProductVariant.save(update_fields=["stock"])\<close>: the override first clears the default
  flag of the other default variants of the product when this object is the default
  one, then the row of this object gets the object's stock.
\<close>

definition ProductVariant_save_stock :: "variant \<Rightarrow> db \<Rightarrow> db" where
  "ProductVariant_save_stock self d =
     (let vs1 =
            (if v_is_default self
             then map (\<lambda>r. if v_product r = v_product self \<and> v_is_default r \<and> v_id r \<noteq> v_id self
                            then r\<lparr>v_is_default := False\<rparr> else r) (variants d)
             else variants d)
      in d\<lparr>variants := map (\<lambda>r. if v_id r = v_id self then r\<lparr>stock := stock self\<rparr> else r) vs1\<rparr>)"

definition discounted_price :: "variant \<Rightarrow> decimal" where
  "discounted_price self = dec_sub (price self) (v_discount_amount self)"

definition reduce_stock :: "variant \<Rightarrow> int \<Rightarrow> db \<Rightarrow> db \<times> (error + variant)" where
  "reduce_stock self q d =
     (if q > stock self
      then (d, Inl (ValueError (''Insufficient stock. Available: '' @ str_int (stock self)
                                 @ '', Requested: '' @ str_int q)))
      else (let self' = self\<lparr>stock := stock self - q\<rparr>
            in (ProductVariant_save_stock self' d, Inr self')))"


section \<open>users/models/address.py\<close>

definition Address_write :: "env \<Rightarrow> bool \<Rightarrow> address \<Rightarrow> db \<Rightarrow> db \<times> (error + address)" where
  "Address_write ev force_insert self d =
     (if force_insert \<and> (\<exists>r \<in> set (addresses d). a_id r = a_id self)
      then (d, Inl (IntegrityError ''addresses.id''))
      else if \<exists>r \<in> set (addresses d). a_id r = a_id self
      then (d\<lparr>addresses := map (\<lambda>r. if a_id r = a_id self then self else r) (addresses d)\<rparr>,
            Inr self)
      else (let self' = self\<lparr>a_created_at := now ev\<rparr>
            in (d\<lparr>addresses := addresses d @ [self']\<rparr>, Inr self')))"

definition Address_save :: "env \<Rightarrow> bool \<Rightarrow> address \<Rightarrow> db \<Rightarrow> db \<times> (error + address)" where
  "Address_save ev force_insert self d =
     (let d1 =
            (if is_default self \<and> a_user self \<noteq> None
             then d\<lparr>addresses :=
                    map (\<lambda>r. if a_user r = a_user self \<and> address_type r = address_type self
                                 \<and> is_default r \<and> a_id r \<noteq> a_id self
                              then r\<lparr>is_default := False\<rparr> else r) (addresses d)\<rparr>
             else d)
      in Address_write ev force_insert self d1)"

section \<open>orders/services/order\_service.py: the order lifecycle\<close>









section \<open>orders/services/order\_service.py: order creation\<close>

subsection \<open>The request payload\<close>

text \<open>
  The JSON payload is a dictionary; a key that may be absent is an option. An address is
  a dictionary of strings and an optional boolean \<^verbatim>\<open>is_default\<close>. The value of
  \<^verbatim>\<open>items\<close> may be something else than a list, and a numeric field may hold a value that
  \<^verbatim>\<open>Decimal(str(...))\<close> rejects. Other ill-typed payloads (a quantity that is not a
  number, an item that is not a dictionary) are outside this model.
\<close>

record item_data =
  variant_id :: "uuid option"
  d_quantity :: "int option"
  d_unit_price :: "decimal option"

record address_data =
  ad_fields :: "(string \<times> string) list"
  ad_is_default :: "bool option"

datatype items_field = NotAList | ItemList "item_data list"

datatype number_field = NotNumeric | Numeric decimal

record order_data =
  d_items :: "items_field option"
  d_shipping_address :: "address_data option"
  d_billing_address :: "address_data option"
  d_payment_method :: "string option"
  d_use_separate_billing :: "bool option"
  d_guest_email :: "string option"
  d_guest_first_name :: "string option"
  d_guest_last_name :: "string option"
  d_guest_phone :: "string option"
  d_shipping_cost :: "number_field option"
  d_tax_rate :: "number_field option"
  d_discount_amount :: "number_field option"
  d_shipping_method :: "string option"
  d_customer_note :: "string option"
  d_currency :: "string option"

text \<open>Truth value of \<^verbatim>\<open>d.get(key)\<close> for a string entry: present and not empty.\<close>

definition truthy :: "string option \<Rightarrow> bool" where
  "truthy x = (case x of None \<Rightarrow> False | Some s \<Rightarrow> s \<noteq> [])"

definition get_or :: "string option \<Rightarrow> string \<Rightarrow> string" where
  "get_or x dflt = (case x of None \<Rightarrow> dflt | Some s \<Rightarrow> s)"

definition guest_fields :: "string list" where
  "guest_fields = [''guest_email'', ''guest_first_name'', ''guest_last_name'', ''guest_phone'']"

definition guest_get :: "order_data \<Rightarrow> string \<Rightarrow> string option" where
  "guest_get data f =
     (if f = ''guest_email'' then d_guest_email data
      else if f = ''guest_first_name'' then d_guest_first_name data
      else if f = ''guest_last_name'' then d_guest_last_name data
      else if f = ''guest_phone'' then d_guest_phone data
      else None)"

definition addr_get :: "address_data \<Rightarrow> string \<Rightarrow> string option" where
  "addr_get a f = map_of (ad_fields a) f"

subsection \<open>validate\_order\_data\<close>

definition required_address_fields :: "string list" where
  "required_address_fields =
     [''first_name'', ''last_name'', ''phone'', ''email'', ''address_line1'', ''city'',
      ''state'', ''postal_code'', ''country'']"

definition address_errors :: "string \<Rightarrow> address_data \<Rightarrow> string list" where
  "address_errors label a =
     map (\<lambda>f. label @ '' address: Missing '' @ f)
       (filter (\<lambda>f. \<not> truthy (addr_get a f)) required_address_fields)"

fun item_errors :: "nat \<Rightarrow> item_data list \<Rightarrow> string list" where
  "item_errors i [] = []"
| "item_errors i (it # its) =
     (if variant_id it = None then [''Item '' @ str_nat i @ '': Missing variant_id''] else [])
     @ (if (case d_quantity it of None \<Rightarrow> True | Some q \<Rightarrow> q < 1)
        then [''Item '' @ str_nat i @ '': Invalid quantity''] else [])
     @ (if d_unit_price it \<noteq> None
        then [''Item '' @ str_nat i @ '': Custom prices not allowed''] else [])
     @ item_errors (Suc i) its"

definition number_errors :: "string \<Rightarrow> number_field option \<Rightarrow> string list" where
  "number_errors f x = (if x = Some NotNumeric then [''Invalid value for '' @ f] else [])"

definition validate_order_data :: "order_data \<Rightarrow> bool \<times> string list \<times> order_data" where
  "validate_order_data data =
     (let errors =
            (if d_items data = None then [''Missing required field: items''] else [])
            @ (if d_shipping_address data = None
               then [''Missing required field: shipping_address''] else [])
            @ (if d_payment_method data = None
               then [''Missing required field: payment_method''] else [])
            @ (case d_items data of
                 None \<Rightarrow> []
               | Some NotAList \<Rightarrow> [''Items must be a list'']
               | Some (ItemList its) \<Rightarrow>
                   if its = [] then [''Order must contain at least one item'']
                   else item_errors 0 its)
            @ (case d_shipping_address data of
                 None \<Rightarrow> []
               | Some shipping \<Rightarrow> address_errors ''Shipping'' shipping)
            @ (case d_billing_address data of
                 None \<Rightarrow> []
               | Some billing \<Rightarrow>
                   if d_use_separate_billing data = Some True
                   then address_errors ''Billing'' billing else [])
            @ number_errors ''shipping_cost'' (d_shipping_cost data)
            @ number_errors ''tax_rate'' (d_tax_rate data)
            @ number_errors ''discount_amount'' (d_discount_amount data);
          normalized =
            (if d_use_separate_billing data = None
             then data\<lparr>d_use_separate_billing := Some (d_billing_address data \<noteq> None)\<rparr>
             else data)
      in (errors = [], errors, normalized))"

subsection \<open>User/guest consistency\<close>

definition authenticated :: "user option \<Rightarrow> bool" where
  "authenticated usr = (case usr of None \<Rightarrow> False | Some u \<Rightarrow> is_authenticated u)"

definition guest_consistency :: "user option \<Rightarrow> order_data \<Rightarrow> error option" where
  "guest_consistency usr nd =
     (if authenticated usr
      then (let provided_guest_fields = filter (\<lambda>f. truthy (guest_get nd f)) guest_fields
            in if provided_guest_fields \<noteq> []
               then Some (ValidationError
                      (''Authenticated users should not provide guest fields: ''
                       @ join_comma provided_guest_fields))
               else None)
      else (let missing_fields = filter (\<lambda>f. \<not> truthy (guest_get nd f)) guest_fields
            in if missing_fields \<noteq> []
               then Some (ValidationError
                      (''Guest checkout requires all guest fields. Missing: ''
                       @ join_comma missing_fields))
               else None))"

subsection \<open>\_create\_or\_get\_address\<close>

text \<open>
  \<^verbatim>\<open>address_data["key"]\<close> raises \<^verbatim>\<open>KeyError\<close> on a missing key; the keys are read in the
  order of the source. \<^verbatim>\<open>.first()\<close> follows the ordering of the model: default
  addresses first, then the most recently created.
\<close>

definition first_missing :: "string list \<Rightarrow> address_data \<Rightarrow> string option" where
  "first_missing ks a = find (\<lambda>k. addr_get a k = None) ks"

fun newest :: "address list \<Rightarrow> address option" where
  "newest [] = None"
| "newest (r # rs) =
     (case newest rs of
        None \<Rightarrow> Some r
      | Some r' \<Rightarrow> if a_created_at r' > a_created_at r then Some r' else Some r)"

definition first_address :: "address list \<Rightarrow> address option" where
  "first_address rs = (case filter is_default rs of [] \<Rightarrow> newest rs | ds \<Rightarrow> newest ds)"

definition new_address :: "env \<Rightarrow> address_data \<Rightarrow> user option \<Rightarrow> string \<Rightarrow> address" where
  "new_address ev a usr atype =
     \<lparr>a_id = address_uuid ev atype,
      a_user = map_option u_id usr,
      address_type = atype,
      first_name = get_or (addr_get a ''first_name'') [],
      last_name = get_or (addr_get a ''last_name'') [],
      company = get_or (addr_get a ''company'') [],
      phone = get_or (addr_get a ''phone'') [],
      email = get_or (addr_get a ''email'') [],
      address_line1 = get_or (addr_get a ''address_line1'') [],
      address_line2 = get_or (addr_get a ''address_line2'') [],
      city = get_or (addr_get a ''city'') [],
      state = get_or (addr_get a ''state'') [],
      postal_code = get_or (addr_get a ''postal_code'') [],
      country = get_or (addr_get a ''country'') [],
      is_default = (case ad_is_default a of None \<Rightarrow> False | Some b \<Rightarrow> b),
      a_is_active = True,
      instructions = get_or (addr_get a ''instructions'') [],
      a_created_at = now ev\<rparr>"

definition create_address :: "env \<Rightarrow> address_data \<Rightarrow> user option \<Rightarrow> string \<Rightarrow> db \<Rightarrow> db \<times> (error + address)" where
  "create_address ev a usr atype d =
     (case first_missing [''first_name'', ''last_name'', ''phone'', ''email'', ''address_line1'',
                          ''city'', ''state'', ''postal_code'', ''country''] a of
        Some k \<Rightarrow> (d, Inl (KeyError k))
      | None \<Rightarrow> Address_save ev True (new_address ev a usr atype) d)"

definition create_or_get_address :: "env \<Rightarrow> address_data \<Rightarrow> user option \<Rightarrow> string \<Rightarrow> db \<Rightarrow> db \<times> (error + address)" where
  "create_or_get_address ev a usr atype d =
     (if authenticated usr
      then (case first_missing [''first_name'', ''last_name'', ''address_line1'', ''city'',
                                ''country'', ''postal_code''] a of
              Some k \<Rightarrow> (d, Inl (KeyError k))
            | None \<Rightarrow>
                (case first_address
                        (filter (\<lambda>r. a_user r = map_option u_id usr
                                    \<and> address_type r = atype
                                    \<and> Some (first_name r) = addr_get a ''first_name''
                                    \<and> Some (last_name r) = addr_get a ''last_name''
                                    \<and> Some (address_line1 r) = addr_get a ''address_line1''
                                    \<and> Some (city r) = addr_get a ''city''
                                    \<and> Some (country r) = addr_get a ''country''
                                    \<and> Some (postal_code r) = addr_get a ''postal_code'')
                           (addresses d)) of
                   Some existing \<Rightarrow> (d, Inr existing)
                 | None \<Rightarrow> create_address ev a usr atype d))
      else create_address ev a usr atype d)"

subsection \<open>create\_order\_from\_data\<close>

record pending_item =
  pi_variant :: variant
  pi_quantity :: int
  pi_unit_price :: decimal
  pi_product_title :: string
  pi_product_slug :: string
  pi_variant_attributes :: "(string \<times> string) list"
  pi_sku :: string

definition get_variant :: "uuid \<Rightarrow> db \<Rightarrow> (variant \<times> product) option" where
  "get_variant vid d =
     (case find (\<lambda>v. v_id v = vid) (variants d) of
        None \<Rightarrow> None
      | Some v \<Rightarrow>
          if \<not> v_is_active v then None
          else (case find (\<lambda>p. p_id p = v_product v) (products d) of
                  None \<Rightarrow> None
                | Some p \<Rightarrow> if p_status p = ''published'' then Some (v, p) else None))"

definition insufficient_stock_message :: "string \<Rightarrow> int \<Rightarrow> int \<Rightarrow> string" where
  "insufficient_stock_message sku available requested =
     ''Insufficient stock for '' @ sku @ ''. Available: '' @ str_int available
     @ '', Requested: '' @ str_int requested"

text \<open>\<^verbatim>\<open>item_data.get("quantity", 1)\<close>.\<close>

definition get_quantity :: "item_data \<Rightarrow> int" where
  "get_quantity it = (case d_quantity it of None \<Rightarrow> 1 | Some q \<Rightarrow> q)"

definition check_item :: "db \<Rightarrow> item_data \<Rightarrow> error + pending_item" where
  "check_item d it =
     (case variant_id it of
        None \<Rightarrow> Inl (KeyError ''variant_id'')
      | Some vid \<Rightarrow>
          (case get_variant vid d of
             None \<Rightarrow> Inl (ValidationError (''Product variant not found: '' @ vid))
           | Some (v, p) \<Rightarrow>
               let q = get_quantity it
               in if stock v < q
                  then Inl (ValidationError (insufficient_stock_message (v_sku v) (stock v) q))
                  else
                    let up = (case d_unit_price it of
                                None \<Rightarrow> discounted_price v
                              | Some raw \<Rightarrow> raw)
                    in Inr \<lparr>pi_variant = v, pi_quantity = q, pi_unit_price = up,
                            pi_product_title = title p, pi_product_slug = slug p,
                            pi_variant_attributes = attributes v, pi_sku = v_sku v\<rparr>))"

fun collect_items ::
  "db \<Rightarrow> item_data list \<Rightarrow> pending_item list \<Rightarrow> decimal \<Rightarrow> error + (pending_item list \<times> decimal)" where
  "collect_items d [] acc sub = Inr (acc, sub)"
| "collect_items d (it # its) acc sub =
     (case check_item d it of
        Inl e \<Rightarrow> Inl e
      | Inr p \<Rightarrow>
          collect_items d its (acc @ [p])
            (dec_add sub (dec_mul (pi_unit_price p) (dec_of_int (pi_quantity p)))))"

definition ensure_decimal :: "number_field option \<Rightarrow> decimal" where
  "ensure_decimal x = (case x of Some (Numeric v) \<Rightarrow> v | _ \<Rightarrow> Decimal 0 (- 2))"

text \<open>
  A new \<^verbatim>\<open>OrderItem\<close> has the float default 0.0 as its discount, which \<^verbatim>\<open>save\<close> reads
  through \<^verbatim>\<open>Decimal(str(...))\<close>, that is as \<^verbatim>\<open>Decimal("0.0")\<close>.
\<close>

definition new_item :: "env \<Rightarrow> order \<Rightarrow> nat \<Rightarrow> pending_item \<Rightarrow> order_item" where
  "new_item ev ord i p =
     \<lparr>oi_id = item_uuid ev i, oi_order = o_id ord, oi_variant = Some (v_id (pi_variant p)),
      product_title = pi_product_title p, product_slug = pi_product_slug p,
      variant_attributes = pi_variant_attributes p, oi_sku = pi_sku p,
      unit_price = pi_unit_price p, oi_discount_amount = Decimal 0 (- 1),
      quantity = pi_quantity p, total_price = Decimal 0 (- 1)\<rparr>"

fun create_items ::
  "env \<Rightarrow> order \<Rightarrow> nat \<Rightarrow> pending_item list \<Rightarrow> db \<Rightarrow> db \<times> (error + order_item list)" where
  "create_items ev ord i [] d = (d, Inr [])"
| "create_items ev ord i (p # ps) d =
     (case OrderItem_save True (new_item ev ord i p) d of
        (d1, Inl e) \<Rightarrow> (d1, Inl e)
      | (d1, Inr item) \<Rightarrow>
          (case reduce_stock (pi_variant p) (pi_quantity p) d1 of
             (d2, Inl e) \<Rightarrow> (d2, Inl e)
           | (d2, Inr v') \<Rightarrow>
               (case create_items ev ord (Suc i) ps d2 of
                  (d3, Inl e) \<Rightarrow> (d3, Inl e)
                | (d3, Inr items) \<Rightarrow> (d3, Inr (item # items)))))"

definition new_order ::
  "env \<Rightarrow> order_data \<Rightarrow> user option \<Rightarrow> address \<Rightarrow> address \<Rightarrow> decimal \<Rightarrow> order" where
  "new_order ev nd usr shipping billing sub =
     (let shipping_c = ensure_decimal (d_shipping_cost nd);
          rate = ensure_decimal (d_tax_rate nd);
          discount = ensure_decimal (d_discount_amount nd);
          tax = dec_div (dec_mul sub rate) (Decimal 10000 (- 2))
      in \<lparr>o_id = order_uuid ev,
          o_user = map_option u_id usr,
          guest_email = get_or (d_guest_email nd) [],
          guest_first_name = get_or (d_guest_first_name nd) [],
          guest_last_name = get_or (d_guest_last_name nd) [],
          guest_phone = get_or (d_guest_phone nd) [],
          order_number = [],
          status = STATUS_PENDING,
          payment_status = PAYMENT_PENDING,
          payment_method = get_or (d_payment_method nd) [],
          shipping_address = a_id shipping,
          billing_address = a_id billing,
          subtotal = sub,
          shipping_cost = shipping_c,
          tax_amount = tax,
          tax_rate = rate,
          discount_amount = discount,
          total = Decimal 0 (- 1),
          currency = get_or (d_currency nd) ''USD'',
          shipping_method = get_or (d_shipping_method nd) [],
          carrier = [],
          payment_intent_id = [],
          payment_receipt_url = [],
          customer_note = get_or (d_customer_note nd) [],
          admin_note = [],
          paid_at = None,
          confirmed_at = None,
          cancelled_at = None\<rparr>)"

definition resolve_addresses ::
  "env \<Rightarrow> order_data \<Rightarrow> user option \<Rightarrow> address_data \<Rightarrow> db \<Rightarrow> db \<times> (error + address \<times> address)" where
  "resolve_addresses ev nd usr shipping_data d =
     (case create_or_get_address ev shipping_data usr ''shipping'' d of
        (d1, Inl e) \<Rightarrow> (d1, Inl e)
      | (d1, Inr shipping) \<Rightarrow>
          (case d_billing_address nd of
             None \<Rightarrow> (d1, Inr (shipping, shipping))
           | Some billing_data \<Rightarrow>
               if d_use_separate_billing nd = Some True
               then (case create_or_get_address ev billing_data usr ''billing'' d1 of
                       (d2, Inl e) \<Rightarrow> (d2, Inl e)
                     | (d2, Inr billing) \<Rightarrow> (d2, Inr (shipping, billing)))
               else (d1, Inr (shipping, shipping))))"

definition place_order ::
  "env \<Rightarrow> order_data \<Rightarrow> user option \<Rightarrow> address \<Rightarrow> address \<Rightarrow> item_data list \<Rightarrow> db
     \<Rightarrow> db \<times> (error + order \<times> order_item list)" where
  "place_order ev nd usr shipping billing its d =
     (case collect_items d its [] (Decimal 0 (- 2)) of
        Inl e \<Rightarrow> (d, Inl e)
      | Inr (pending, sub) \<Rightarrow>
          (case Order_save ev True (new_order ev nd usr shipping billing sub) d of
             (d1, Inl e) \<Rightarrow> (d1, Inl e)
           | (d1, Inr ord) \<Rightarrow>
               (case create_items ev ord 0 pending d1 of
                  (d2, Inl e) \<Rightarrow> (d2, Inl e)
                | (d2, Inr items) \<Rightarrow> (d2, Inr (ord, items)))))"

definition create_order_body ::
  "env \<Rightarrow> order_data \<Rightarrow> user option \<Rightarrow> db \<Rightarrow> db \<times> (error + order \<times> order_item list)" where
  "create_order_body ev data usr d =
     (case validate_order_data data of
        (is_valid, errors, nd) \<Rightarrow>
          if \<not> is_valid
          then (d, Inl (ValidationError (''Invalid order data: '' @ join_comma errors)))
          else
            (case guest_consistency usr nd of
               Some e \<Rightarrow> (d, Inl e)
             | None \<Rightarrow>
                 (case d_shipping_address nd of
                    None \<Rightarrow> (d, Inl (KeyError ''shipping_address''))
                  | Some shipping_data \<Rightarrow>
                      (case d_items nd of
                         None \<Rightarrow> (d, Inl (KeyError ''items''))
                       | Some NotAList \<Rightarrow> (d, Inl (TypeError ''items''))
                       | Some (ItemList its) \<Rightarrow>
                           (case resolve_addresses ev nd usr shipping_data d of
                              (d1, Inl e) \<Rightarrow> (d1, Inl e)
                            | (d1, Inr (shipping, billing)) \<Rightarrow>
                                place_order ev nd usr shipping billing its d1)))))"

definition create_order_from_data ::
  "env \<Rightarrow> order_data \<Rightarrow> user option \<Rightarrow> db \<Rightarrow> db \<times> (error + order \<times> order_item list)" where
  "create_order_from_data ev data usr d = atomic (create_order_body ev data usr) d"

section \<open>Example data\<close>

text \<open>Concrete rows, payloads and draws on which the operations are run below.\<close>

definition empty_db :: db where
  "empty_db = \<lparr>products = [], variants = [], addresses = [], orders = [], order_items = []\<rparr>"

definition ex_env :: env where
  "ex_env =
     \<lparr>now = 1700000000, date_str = ''20240101'', randint = 1234,
      address_uuid = (\<lambda>t. ''addr-'' @ t), order_uuid = ''o1'',
      item_uuid = (\<lambda>i. ''item-'' @ str_nat i)\<rparr>"

definition ex_order :: order where
  "ex_order =
     \<lparr>o_id = ''o1'', o_user = None, guest_email = ''g@example.com'',
      guest_first_name = ''Ama'', guest_last_name = ''Mensah'', guest_phone = ''0240000000'',
      order_number = [], status = STATUS_PENDING, payment_status = PAYMENT_PENDING,
      payment_method = ''mobile_money'', shipping_address = ''a1'', billing_address = ''a1'',
      subtotal = Decimal 3600 (- 2), shipping_cost = Decimal 500 (- 2),
      tax_amount = Decimal 360 (- 2), tax_rate = Decimal 1000 (- 2),
      discount_amount = Decimal 110 (- 2), total = Decimal 99999 (- 2),
      currency = ''USD'', shipping_method = [], carrier = [], payment_intent_id = [],
      payment_receipt_url = [], customer_note = [], admin_note = [],
      paid_at = None, confirmed_at = None, cancelled_at = None\<rparr>"

definition ex_product :: product where
  "ex_product = \<lparr>p_id = ''p1'', title = ''Generic Shirt'', slug = ''generic-shirt'', p_status = ''published''\<rparr>"

definition ex_variant_blk :: variant where
  "ex_variant_blk =
     \<lparr>v_id = ''v1'', v_product = ''p1'', v_sku = ''GEN-BLK-01'', attributes = [(''color'', ''black'')],
      price = Decimal 2000 (- 2), v_discount_amount = Decimal 200 (- 2), stock = 3,
      v_is_default = True, v_is_active = True\<rparr>"

definition ex_variant_wht :: variant where
  "ex_variant_wht =
     \<lparr>v_id = ''v2'', v_product = ''p1'', v_sku = ''GEN-WHT-02'', attributes = [(''color'', ''white'')],
      price = Decimal 2500 (- 2), v_discount_amount = Decimal 0 (- 2), stock = 10,
      v_is_default = False, v_is_active = True\<rparr>"

definition ex_catalog :: db where
  "ex_catalog = empty_db\<lparr>products := [ex_product], variants := [ex_variant_blk, ex_variant_wht]\<rparr>"

definition ex_stored_order :: order where
  "ex_stored_order = ex_order\<lparr>order_number := ''ORD202401011234'', total := Decimal 4350 (- 2)\<rparr>"

definition ex_pending_db :: db where
  "ex_pending_db = ex_catalog\<lparr>orders := [ex_stored_order]\<rparr>"

definition ex_owner :: user where
  "ex_owner = \<lparr>u_id = ''u1'', is_authenticated = True, is_staff = False\<rparr>"






definition ex_address_data :: address_data where
  "ex_address_data =
     \<lparr>ad_fields =
        [(''first_name'', ''Ama''), (''last_name'', ''Mensah''), (''phone'', ''0240000000''),
         (''email'', ''g@example.com''), (''address_line1'', ''1 Ring Road''), (''city'', ''Accra''),
         (''state'', ''GA''), (''postal_code'', ''00233''), (''country'', ''GH'')],
      ad_is_default = None\<rparr>"

definition ex_payload :: order_data where
  "ex_payload =
     \<lparr>d_items = Some (ItemList [\<lparr>variant_id = Some ''v1'', d_quantity = Some 2, d_unit_price = None\<rparr>]),
      d_shipping_address = Some ex_address_data,
      d_billing_address = None,
      d_payment_method = Some ''mobile_money'',
      d_use_separate_billing = None,
      d_guest_email = Some ''g@example.com'',
      d_guest_first_name = Some ''Ama'',
      d_guest_last_name = Some ''Mensah'',
      d_guest_phone = Some ''0240000000'',
      d_shipping_cost = None,
      d_tax_rate = None,
      d_discount_amount = None,
      d_shipping_method = None,
      d_customer_note = None,
      d_currency = None\<rparr>"




definition ex_taken_db :: db where
  "ex_taken_db = ex_catalog\<lparr>orders := [ex_stored_order\<lparr>o_id := ''o0''\<rparr>]\<rparr>"

definition ex_guest_address :: address where
  "ex_guest_address =
     \<lparr>a_id = ''g1'', a_user = None, address_type = ''shipping'', first_name = ''Ama'',
      last_name = ''Mensah'', company = [], phone = ''0240000000'', email = ''g@example.com'',
      address_line1 = ''1 Ring Road'', address_line2 = [], city = ''Accra'', state = ''GA'',
      postal_code = ''00233'', country = ''GH'', is_default = True, a_is_active = True,
      instructions = [], a_created_at = 0\<rparr>"

section \<open>Well-formed order tables\<close>


section \<open>Stock bookkeeping\<close>

definition stock_of :: "db \<Rightarrow> uuid \<Rightarrow> int option" where
  "stock_of d vid = map_option stock (find (\<lambda>v. v_id v = vid) (variants d))"


section \<open>Line items against the catalogue\<close>



text \<open>Two databases with the same catalogue, orders and order items.\<close>

definition same_catalog :: "db \<Rightarrow> db \<Rightarrow> bool" where
  "same_catalog d1 d =
     (variants d1 = variants d \<and> products d1 = products d \<and> orders d1 = orders d
      \<and> order_items d1 = order_items d)"

section \<open>Default addresses\<close>

text \<open>The default addresses of an owner (a user, or none for guests) and a type.\<close>

definition defaults_of :: "uuid option \<Rightarrow> string \<Rightarrow> db \<Rightarrow> address list" where
  "defaults_of u t d =
     filter (\<lambda>r. a_user r = u \<and> address_type r = t \<and> is_default r) (addresses d)"

text \<open>
  A sequence of \<^verbatim>\<open>Address.save\<close> calls, each with its clock and its insert flag; a save
  that raises leaves the database as the save left it.
\<close>

fun Address_saves :: "(env \<times> bool \<times> address) list \<Rightarrow> db \<Rightarrow> db" where
  "Address_saves [] d = d"
| "Address_saves ((ev, force_insert, a) # ops) d =
     Address_saves ops (fst (Address_save ev force_insert a d))"

text \<open>
  Address keys are unique, and two default addresses of the same user and type have the
  same key.
\<close>

definition default_unique :: "db \<Rightarrow> bool" where
  "default_unique d =
     (distinct (map a_id (addresses d))
      \<and> (\<forall>r \<in> set (addresses d). \<forall>r' \<in> set (addresses d).
            is_default r \<and> is_default r' \<and> a_user r \<noteq> None \<and> a_user r = a_user r'
              \<and> address_type r = address_type r'
            \<longrightarrow> a_id r = a_id r'))"

section \<open>Decimal arithmetic is exact\<close>







section \<open>Row writes\<close>


lemma find_append_new:
  "\<not> (\<exists>r \<in> set rows. key r = key self) \<Longrightarrow>
     find (\<lambda>r. key r = key self) (rows @ [self]) = Some self"
  by (induction rows) auto



lemma Order_assign_money:
  "subtotal (Order_assign ev self) = subtotal self"
  "shipping_cost (Order_assign ev self) = shipping_cost self"
  "tax_amount (Order_assign ev self) = tax_amount self"
  "discount_amount (Order_assign ev self) = discount_amount self"
  "o_id (Order_assign ev self) = o_id self"
  by (simp_all add: Order_assign_def Let_def)


lemma str_nat_1234: "str_nat 1234 = ''1234''"
  by (simp add: str_nat.simps)

section \<open>Order totals\<close>



section \<open>Order item totals\<close>


lemma OrderItem_assign_fields:
  "unit_price (OrderItem_assign d self) = unit_price self"
  "oi_discount_amount (OrderItem_assign d self) = oi_discount_amount self"
  "quantity (OrderItem_assign d self) = quantity self"
  "oi_id (OrderItem_assign d self) = oi_id self"
  "oi_order (OrderItem_assign d self) = oi_order self"
  "oi_variant (OrderItem_assign d self) = oi_variant self"
  by (simp_all add: OrderItem_assign_def Let_def split: option.splits)

lemma OrderItem_assign_total_price:
  "total_price (OrderItem_assign d self) =
     dec_mul (dec_sub (unit_price self) (oi_discount_amount self)) (dec_of_int (quantity self))"
  by (simp add: OrderItem_assign_def Let_def split: option.splits)



section \<open>Payment status updates\<close>

lemma find_Some_mem: "find P xs = Some x \<Longrightarrow> x \<in> set xs \<and> P x"
  by (induction xs) (auto split: if_splits)











section \<open>Restoring stock on cancellation\<close>

lemma find_map_key:
  "(\<And>r. key (f r) = key r) \<Longrightarrow>
     find (\<lambda>r. key r = k) (map f rows) = map_option f (find (\<lambda>r. key r = k) rows)"
  by (induction rows) simp_all

lemma save_stock_other_tables:
  "orders (ProductVariant_save_stock obj d) = orders d"
  "order_items (ProductVariant_save_stock obj d) = order_items d"
  "products (ProductVariant_save_stock obj d) = products d"
  "addresses (ProductVariant_save_stock obj d) = addresses d"
  by (simp_all add: ProductVariant_save_stock_def Let_def)

lemma stock_of_save_stock:
  "stock_of (ProductVariant_save_stock obj d) vid =
     (if vid = v_id obj then map_option (\<lambda>s. stock obj) (stock_of d vid) else stock_of d vid)"
proof -
  let ?f = "\<lambda>r. if v_product r = v_product obj \<and> v_is_default r \<and> v_id r \<noteq> v_id obj
                 then r\<lparr>v_is_default := False\<rparr> else r"
  let ?g = "\<lambda>r. if v_id r = v_id obj then r\<lparr>stock := stock obj\<rparr> else r"
  let ?h = "\<lambda>r. ?g (if v_is_default obj then ?f r else r)"
  have v: "variants (ProductVariant_save_stock obj d) = map ?h (variants d)"
    by (simp add: ProductVariant_save_stock_def Let_def)
  have k: "v_id (?h r) = v_id r" for r by simp
  have "find (\<lambda>r. v_id r = vid) (map ?h (variants d))
          = map_option ?h (find (\<lambda>r. v_id r = vid) (variants d))"
    by (rule find_map_key[of v_id ?h, OF k])
  then have s: "stock_of (ProductVariant_save_stock obj d) vid
          = map_option (\<lambda>r. stock (?h r)) (find (\<lambda>r. v_id r = vid) (variants d))"
    by (simp add: stock_of_def v option.map_comp comp_def)
  show ?thesis
  proof (cases "find (\<lambda>r. v_id r = vid) (variants d)")
    case None
    then show ?thesis by (subst s) (cases "vid = v_id obj"; simp add: stock_of_def)
  next
    case (Some r)
    from find_Some_mem[OF Some] have kr: "v_id r = vid" by simp
    show ?thesis
    proof (cases "vid = v_id obj")
      case True
      with Some have "find (\<lambda>r. v_id r = v_id obj) (variants d) = Some r" by simp
      with True kr show ?thesis by (subst s) (simp add: stock_of_def)
    next
      case False
      with kr Some show ?thesis by (subst s) (simp add: stock_of_def)
    qed
  qed
qed







section \<open>Cancelling an order\<close>

















section \<open>User and guest exclusivity\<close>

lemma validate_normalized:
  "snd (snd (validate_order_data data)) =
     (if d_use_separate_billing data = None
      then data\<lparr>d_use_separate_billing := Some (d_billing_address data \<noteq> None)\<rparr>
      else data)"
  unfolding validate_order_data_def Let_def by (simp only: snd_conv)

lemma validate_valid:
  "fst (validate_order_data data) \<longleftrightarrow> fst (snd (validate_order_data data)) = []"
  unfolding validate_order_data_def Let_def by (simp only: fst_conv snd_conv)

lemma validate_keeps_guest:
  assumes "validate_order_data data = (v, errs, nd)"
  shows "guest_get nd f = guest_get data f"
proof -
  from assms have "nd = snd (snd (validate_order_data data))" by simp
  then show ?thesis by (simp add: validate_normalized guest_get_def)
qed

lemma guest_consistency_rejects:
  assumes "(authenticated usr \<and> (\<exists>f \<in> set guest_fields. truthy (guest_get nd f)))
         \<or> (\<not> authenticated usr \<and> (\<exists>f \<in> set guest_fields. \<not> truthy (guest_get nd f)))"
  shows "\<exists>m. guest_consistency usr nd = Some (ValidationError m)"
proof (cases "authenticated usr")
  case True
  with assms have "filter (\<lambda>f. truthy (guest_get nd f)) guest_fields \<noteq> []"
    by (simp add: filter_empty_conv)
  with True show ?thesis by (simp add: guest_consistency_def Let_def)
next
  case False
  with assms have "filter (\<lambda>f. \<not> truthy (guest_get nd f)) guest_fields \<noteq> []"
    by (simp add: filter_empty_conv)
  with False show ?thesis by (simp add: guest_consistency_def Let_def)
qed

text \<open>
  C5. Whenever the request has an authenticated user and one of the four guest contact
  fields is populated, or has no authenticated user and one of the four is missing or
  empty, \<^verbatim>\<open>create_order_from_data\<close> fails with a \<^verbatim>\<open>ValidationError\<close> and the database is
  as it was.
\<close>

theorem create_order_guest_exclusivity:
  assumes "(authenticated usr \<and> (\<exists>f \<in> set guest_fields. truthy (guest_get data f)))
         \<or> (\<not> authenticated usr \<and> (\<exists>f \<in> set guest_fields. \<not> truthy (guest_get data f)))"
  shows "\<exists>m. create_order_from_data ev data usr d = (d, Inl (ValidationError m))"
proof -
  obtain v errs nd where val: "validate_order_data data = (v, errs, nd)"
    by (cases "validate_order_data data") auto
  show ?thesis
  proof (cases v)
    case False
    with val show ?thesis
      unfolding create_order_from_data_def atomic_def create_order_body_def by simp
  next
    case True
    from assms have "(authenticated usr \<and> (\<exists>f \<in> set guest_fields. truthy (guest_get nd f)))
         \<or> (\<not> authenticated usr \<and> (\<exists>f \<in> set guest_fields. \<not> truthy (guest_get nd f)))"
      by (simp add: validate_keeps_guest[OF val])
    from guest_consistency_rejects[OF this]
    obtain m where "guest_consistency usr nd = Some (ValidationError m)" by blast
    with val True show ?thesis
      unfolding create_order_from_data_def atomic_def create_order_body_def by simp
  qed
qed


theorem create_order_guest_exclusivity_witness:
  "authenticated (Some ex_owner) \<and> truthy (guest_get ex_payload ''guest_email'')
   \<and> (\<exists>m. create_order_from_data ex_env ex_payload (Some ex_owner) ex_catalog
              = (ex_catalog, Inl (ValidationError m)))
   \<and> \<not> authenticated None
   \<and> \<not> truthy (guest_get (ex_payload\<lparr>d_guest_phone := Some []\<rparr>) ''guest_phone'')
   \<and> (\<exists>m. create_order_from_data ex_env (ex_payload\<lparr>d_guest_phone := Some []\<rparr>) None ex_catalog
              = (ex_catalog, Inl (ValidationError m)))"
proof -
  have a: "authenticated (Some ex_owner)" by (simp add: authenticated_def ex_owner_def)
  have t: "truthy (guest_get ex_payload ''guest_email'')"
    by (simp add: truthy_def guest_get_def ex_payload_def)
  have m1: "''guest_email'' \<in> set guest_fields" by (simp add: guest_fields_def)
  have n: "\<not> authenticated None" by (simp add: authenticated_def)
  have f: "\<not> truthy (guest_get (ex_payload\<lparr>d_guest_phone := Some []\<rparr>) ''guest_phone'')"
    by (simp add: truthy_def guest_get_def)
  have m2: "''guest_phone'' \<in> set guest_fields" by (simp add: guest_fields_def)
  from a t m1 have h1: "(authenticated (Some ex_owner)
        \<and> (\<exists>f \<in> set guest_fields. truthy (guest_get ex_payload f)))
      \<or> (\<not> authenticated (Some ex_owner)
        \<and> (\<exists>f \<in> set guest_fields. \<not> truthy (guest_get ex_payload f)))"
    by blast
  from n f m2 have h2: "(authenticated None
        \<and> (\<exists>f \<in> set guest_fields. truthy (guest_get (ex_payload\<lparr>d_guest_phone := Some []\<rparr>) f)))
      \<or> (\<not> authenticated None
        \<and> (\<exists>f \<in> set guest_fields. \<not> truthy (guest_get (ex_payload\<lparr>d_guest_phone := Some []\<rparr>) f)))"
    by blast
  from create_order_guest_exclusivity[OF h1, of ex_env ex_catalog]
       create_order_guest_exclusivity[OF h2, of ex_env ex_catalog] a t n f
  show ?thesis by blast
qed

lemma ex_payload_valid:
  "validate_order_data ex_payload = (True, [], ex_payload\<lparr>d_use_separate_billing := Some False\<rparr>)"
  by (simp add: validate_order_data_def Let_def ex_payload_def ex_address_data_def
      address_errors_def required_address_fields_def addr_get_def truthy_def number_errors_def)

section \<open>Address resolution touches the address table only\<close>

lemma same_catalog_refl: "same_catalog d d"
  by (simp add: same_catalog_def)

lemma same_catalog_trans: "same_catalog d2 d1 \<Longrightarrow> same_catalog d1 d \<Longrightarrow> same_catalog d2 d"
  by (simp add: same_catalog_def)

lemma Address_write_tables: "same_catalog (fst (Address_write ev fi self d)) d"
  by (simp add: Address_write_def Let_def same_catalog_def)

lemma Address_save_tables: "same_catalog (fst (Address_save ev fi self d)) d"
proof -
  let ?d1 = "if is_default self \<and> a_user self \<noteq> None
             then d\<lparr>addresses :=
                    map (\<lambda>r. if a_user r = a_user self \<and> address_type r = address_type self
                                 \<and> is_default r \<and> a_id r \<noteq> a_id self
                              then r\<lparr>is_default := False\<rparr> else r) (addresses d)\<rparr>
             else d"
  have a: "same_catalog ?d1 d" by (simp add: same_catalog_def)
  have "Address_save ev fi self d = Address_write ev fi self ?d1"
    by (simp add: Address_save_def Let_def)
  with same_catalog_trans[OF Address_write_tables a] show ?thesis by simp
qed

lemma create_address_tables: "same_catalog (fst (create_address ev a usr atype d)) d"
  by (simp add: create_address_def Address_save_tables same_catalog_refl split: option.splits)

lemma create_or_get_address_tables:
  "same_catalog (fst (create_or_get_address ev a usr atype d)) d"
  by (simp add: create_or_get_address_def create_address_tables same_catalog_refl
      split: option.splits)

lemma resolve_addresses_tables:
  "same_catalog (fst (resolve_addresses ev nd usr sd d)) d"
proof (cases "create_or_get_address ev sd usr ''shipping'' d")
  case (Pair d1 r)
  from create_or_get_address_tables[of ev sd usr "''shipping''" d] Pair
  have s1: "same_catalog d1 d" by simp
  show ?thesis
  proof (cases r)
    case (Inl e)
    with Pair s1 show ?thesis by (simp add: resolve_addresses_def)
  next
    case (Inr shipping)
    show ?thesis
    proof (cases "d_billing_address nd")
      case None
      with Pair Inr s1 show ?thesis by (simp add: resolve_addresses_def)
    next
      case (Some bd)
      show ?thesis
      proof (cases "d_use_separate_billing nd = Some True")
        case False
        with Pair Inr s1 Some show ?thesis by (simp add: resolve_addresses_def)
      next
        case True
        obtain d2 r2 where p2: "create_or_get_address ev bd usr ''billing'' d1 = (d2, r2)"
          by (cases "create_or_get_address ev bd usr ''billing'' d1") auto
        from create_or_get_address_tables[of ev bd usr "''billing''" d1] p2
        have "same_catalog d2 d1" by simp
        from same_catalog_trans[OF this s1] Pair Inr Some True p2 show ?thesis
          by (cases r2) (simp_all add: resolve_addresses_def)
      qed
    qed
  qed
qed

section \<open>The item loop reads the catalogue only\<close>

lemma get_variant_same:
  assumes "same_catalog d1 d"
  shows "get_variant vid d1 = get_variant vid d"
proof -
  from assms have vs: "variants d1 = variants d" and ps: "products d1 = products d"
    by (simp_all add: same_catalog_def)
  show ?thesis unfolding get_variant_def vs ps by (rule refl)
qed

lemma check_item_same:
  assumes "same_catalog d1 d"
  shows "check_item d1 it = check_item d it"
  unfolding check_item_def get_variant_same[OF assms] by (rule refl)

lemma collect_items_same:
  assumes "same_catalog d1 d"
  shows "collect_items d1 its acc sub = collect_items d its acc sub"
proof (induction its arbitrary: acc sub)
  case Nil
  show ?case by simp
next
  case (Cons a its)
  show ?case
    by (cases "check_item d a") (simp_all add: check_item_same[OF assms] Cons.IH)
qed





section \<open>Orders beyond the stock\<close>


lemma validate_keeps_fields:
  assumes "validate_order_data data = (v, errs, nd)"
  shows "d_items nd = d_items data" "d_shipping_address nd = d_shipping_address data"
    "d_billing_address nd = d_billing_address data"
proof -
  from assms have "nd = snd (snd (validate_order_data data))" by simp
  then show "d_items nd = d_items data" "d_shipping_address nd = d_shipping_address data"
    "d_billing_address nd = d_billing_address data"
    by (simp_all add: validate_normalized)
qed

lemma create_order_of_body:
  "create_order_body ev data usr d = (d1, Inl e) \<Longrightarrow>
     create_order_from_data ev data usr d = (d, Inl e)"
  by (simp add: create_order_from_data_def atomic_def)

lemma create_order_rollback:
  "create_order_from_data ev data usr d = (d', Inl e) \<Longrightarrow> d' = d"
  by (cases "create_order_body ev data usr d")
     (auto simp: create_order_from_data_def atomic_def split: sum.splits)

lemma body_invalid:
  assumes "validate_order_data data = (False, errs, nd)"
  shows "create_order_body ev data usr d =
           (d, Inl (ValidationError (''Invalid order data: '' @ join_comma errs)))"
  using assms unfolding create_order_body_def by simp


lemma body_reaches_items:
  assumes v: "validate_order_data data = (True, errs, nd)"
    and gc: "guest_consistency usr nd = None"
    and sh: "d_shipping_address data = Some sd"
    and it: "d_items data = Some (ItemList its)"
  shows "create_order_body ev data usr d =
           (case resolve_addresses ev nd usr sd d of
              (d1, Inl e) \<Rightarrow> (d1, Inl e)
            | (d1, Inr (shipping, billing)) \<Rightarrow>
                place_order ev nd usr shipping billing its d1)"
  using v gc sh it validate_keeps_fields[OF v] unfolding create_order_body_def by simp













section \<open>Creating an order\<close>

lemma get_variant_Some:
  assumes "get_variant vid d = Some (v, p)"
  shows "find (\<lambda>x. v_id x = vid) (variants d) = Some v" and "v_id v = vid"
proof -
  from assms show f: "find (\<lambda>x. v_id x = vid) (variants d) = Some v"
    by (simp add: get_variant_def split: option.splits if_splits)
  from find_Some_mem[OF f] show "v_id v = vid" by simp
qed

lemma Order_save_fresh:
  assumes "\<forall>r \<in> set (orders d). o_id r \<noteq> o_id x
             \<and> order_number r \<noteq> order_number (Order_assign ev x)"
  shows "Order_save ev True x d = (d\<lparr>orders := orders d @ [Order_assign ev x]\<rparr>, Inr (Order_assign ev x))"
proof -
  from assms have a: "\<not> (\<exists>r \<in> set (orders d). o_id r = o_id (Order_assign ev x))"
    and b: "\<not> (\<exists>r \<in> set (orders d). o_id r \<noteq> o_id (Order_assign ev x)
                 \<and> order_number r = order_number (Order_assign ev x))"
    by (simp_all add: Order_assign_money)
  show ?thesis unfolding Order_save_def Order_write_def using a b
    by (simp only: simp_thms if_False)
qed

lemma OrderItem_save_fresh:
  assumes "\<forall>r \<in> set (order_items d). oi_id r \<noteq> oi_id x"
  shows "OrderItem_save True x d =
           (d\<lparr>order_items := order_items d @ [OrderItem_assign d x]\<rparr>, Inr (OrderItem_assign d x))"
proof -
  from assms have a: "\<not> (\<exists>r \<in> set (order_items d). oi_id r = oi_id (OrderItem_assign d x))"
    by (simp add: OrderItem_assign_fields)
  show ?thesis unfolding OrderItem_save_def OrderItem_write_def using a
    by (simp only: simp_thms if_False)
qed

lemma new_order_fields:
  "o_id (new_order ev nd usr shipping billing sub) = order_uuid ev"
  "order_number (new_order ev nd usr shipping billing sub) = []"
  "subtotal (new_order ev nd usr shipping billing sub) = sub"
  by (simp_all add: new_order_def Let_def)

lemma Order_assign_number:
  "order_number x = [] \<Longrightarrow>
     order_number (Order_assign ev x) = ''ORD'' @ date_str ev @ str_nat (randint ev)"
  by (simp add: Order_assign_def Let_def)


lemma place_order_single:
  assumes gv: "get_variant vid d = Some (v, p)"
    and st: "stock v = 3" and pr: "price v = Decimal 2000 (- 2)"
    and dc: "v_discount_amount v = Decimal 200 (- 2)"
    and iv: "variant_id it = Some vid" and iq: "d_quantity it = Some 2"
    and iu: "d_unit_price it = None"
    and fo: "\<forall>r \<in> set (orders d). o_id r \<noteq> order_uuid ev
               \<and> order_number r \<noteq> ''ORD'' @ date_str ev @ str_nat (randint ev)"
    and fi: "\<forall>r \<in> set (order_items d). oi_id r \<noteq> item_uuid ev 0"
  shows "\<exists>d' ord item.
           place_order ev nd usr shipping billing [it] d = (d', Inr (ord, [item]))
         \<and> unit_price item = Decimal 1800 (- 2) \<and> quantity item = 2
         \<and> total_price item = Decimal 3600 (- 2) \<and> oi_order item = o_id ord
         \<and> oi_variant item = Some vid
         \<and> subtotal ord = Decimal 3600 (- 2)
         \<and> stock_of d' vid = Some 1
         \<and> find (\<lambda>r. o_id r = o_id ord) (orders d') = Some ord
         \<and> find (\<lambda>r. oi_id r = oi_id item) (order_items d') = Some item
         \<and> addresses d' = addresses d"
proof -
  define pend where
    "pend = \<lparr>pi_variant = v, pi_quantity = 2, pi_unit_price = Decimal 1800 (- 2),
             pi_product_title = title p, pi_product_slug = slug p,
             pi_variant_attributes = attributes v, pi_sku = v_sku v\<rparr>"
  have dp: "discounted_price v = Decimal 1800 (- 2)"
    by (simp add: discounted_price_def pr dc dec_sub_def dec_add_def dec_neg_def)
  have c: "check_item d it = Inr pend"
    by (simp add: check_item_def iv gv get_quantity_def iq iu st dp pend_def)
  have ci: "collect_items d [it] [] (Decimal 0 (- 2)) = Inr ([pend], Decimal 3600 (- 2))"
    by (simp add: c) (simp add: pend_def dec_add_def dec_mul_def dec_of_int_def)
  define x where "x = new_order ev nd usr shipping billing (Decimal 3600 (- 2))"
  define ord where "ord = Order_assign ev x"
  define d2 where "d2 = d\<lparr>orders := orders d @ [ord]\<rparr>"
  have xn: "order_number ord = ''ORD'' @ date_str ev @ str_nat (randint ev)"
    and xi: "o_id x = order_uuid ev" and oi: "o_id ord = order_uuid ev"
    and su: "subtotal ord = Decimal 3600 (- 2)"
    by (simp_all add: ord_def x_def Order_assign_number Order_assign_money new_order_fields)
  have os: "Order_save ev True x d = (d2, Inr ord)"
    unfolding d2_def ord_def
    by (rule Order_save_fresh) (use fo xn xi in \<open>simp add: ord_def\<close>)
  define y where "y = new_item ev ord 0 pend"
  define item where "item = OrderItem_assign d2 y"
  define d3 where "d3 = d2\<lparr>order_items := order_items d2 @ [item]\<rparr>"
  have yf: "oi_id y = item_uuid ev 0" "unit_price y = Decimal 1800 (- 2)" "quantity y = 2"
    "oi_discount_amount y = Decimal 0 (- 1)" "oi_order y = o_id ord" "oi_variant y = Some vid"
    by (simp_all add: y_def new_item_def pend_def get_variant_Some(2)[OF gv])
  have itf: "unit_price item = Decimal 1800 (- 2)" "quantity item = 2" "oi_order item = o_id ord"
    "oi_variant item = Some vid" "oi_id item = item_uuid ev 0"
    by (simp_all add: item_def OrderItem_assign_fields yf)
  have tp: "total_price item = Decimal 3600 (- 2)"
    by (simp add: item_def OrderItem_assign_total_price yf dec_mul_def dec_sub_def dec_add_def
        dec_neg_def dec_of_int_def)
  have isv: "OrderItem_save True y d2 = (d3, Inr item)"
    unfolding d3_def item_def
    by (rule OrderItem_save_fresh) (use fi in \<open>simp add: d2_def yf\<close>)
  define v' where "v' = v\<lparr>stock := 1\<rparr>"
  define d4 where "d4 = ProductVariant_save_stock v' d3"
  have rs: "reduce_stock v 2 d3 = (d4, Inr v')"
    by (simp add: reduce_stock_def st Let_def d4_def v'_def)
  have pf: "pi_variant pend = v" "pi_quantity pend = 2" by (simp_all add: pend_def)
  have ci2: "create_items ev ord 0 [pend] d2 = (d4, Inr [item])"
    using isv rs by (simp add: y_def[symmetric] pf)
  have po: "place_order ev nd usr shipping billing [it] d = (d4, Inr (ord, [item]))"
    using ci os ci2 by (simp add: place_order_def x_def[symmetric])
  have v3: "variants d3 = variants d" by (simp add: d3_def d2_def)
  from get_variant_Some[OF gv] have "stock_of d3 vid = Some (stock v)"
    by (simp add: stock_of_def v3)
  then have s4: "stock_of d4 vid = Some 1"
    by (simp add: d4_def stock_of_save_stock v'_def get_variant_Some(2)[OF gv])
  have o4: "orders d4 = orders d @ [ord]" and i4: "order_items d4 = order_items d @ [item]"
    and a4: "addresses d4 = addresses d"
    by (simp_all add: d4_def save_stock_other_tables d3_def d2_def)
  have fo4: "find (\<lambda>r. o_id r = o_id ord) (orders d4) = Some ord"
    unfolding o4 by (rule find_append_new) (use fo oi in simp)
  have fi4: "find (\<lambda>r. oi_id r = oi_id item) (order_items d4) = Some item"
    unfolding i4 by (rule find_append_new) (use fi itf in simp)
  from po itf tp su s4 fo4 fi4 a4 show ?thesis by blast
qed


lemma item_errors_unit_price:
  "\<exists>i \<in> set its. d_unit_price i \<noteq> None \<Longrightarrow> item_errors n its \<noteq> []"
  by (induction its arbitrary: n) auto

lemma validate_rejects_item_errors:
  assumes "d_items data = Some (ItemList its)" and "item_errors 0 its \<noteq> []"
  shows "\<not> fst (validate_order_data data)"
proof -
  from assms(2) have "its \<noteq> []" by auto
  with assms show ?thesis
    unfolding validate_valid unfolding validate_order_data_def Let_def by simp
qed

lemma create_order_rejects_unit_price:
  assumes "d_items data = Some (ItemList its)" and "\<exists>i \<in> set its. d_unit_price i \<noteq> None"
  shows "\<exists>m. create_order_from_data ev data usr d = (d, Inl (ValidationError m))"
proof -
  from validate_rejects_item_errors[OF assms(1) item_errors_unit_price[OF assms(2)]]
  have "\<not> fst (validate_order_data data)" .
  then obtain errs nd where "validate_order_data data = (False, errs, nd)"
    by (cases "validate_order_data data") auto
  from create_order_of_body[OF body_invalid[OF this]] show ?thesis by blast
qed

text \<open>
  C2. For a payload that passes validation and the user/guest check, whose addresses
  resolve, with a single line item of quantity 2 on a variant with stock 3, price 20.00
  and discount 2.00 (and fresh keys for the new order and item):
  \<^verbatim>\<open>create_order_from_data\<close> returns the order and its one item; the item carries no
  caller-supplied price, its unit price is the variant's discounted price 18.00; the
  subtotal is 36.00, exactly unit price times quantity; the variant's stock goes from 3
  to 1; order and item are stored. And every payload with a line item that carries a
  \<^verbatim>\<open>unit_price\<close> is rejected with a \<^verbatim>\<open>ValidationError\<close>, the database unchanged.
\<close>

theorem create_order_scenario:
  assumes val: "validate_order_data data = (True, errs, nd)"
    and gc: "guest_consistency usr nd = None"
    and sh: "d_shipping_address data = Some sd"
    and items: "d_items data = Some (ItemList [it])"
    and iv: "variant_id it = Some vid" and iq: "d_quantity it = Some 2"
    and ra: "resolve_addresses ev nd usr sd d = (d1, Inr (shipping, billing))"
    and gv: "get_variant vid d = Some (v, p)"
    and st: "stock v = 3" and pr: "price v = Decimal 2000 (- 2)"
    and dc: "v_discount_amount v = Decimal 200 (- 2)"
    and fo: "\<forall>r \<in> set (orders d). o_id r \<noteq> order_uuid ev
               \<and> order_number r \<noteq> ''ORD'' @ date_str ev @ str_nat (randint ev)"
    and fi: "\<forall>r \<in> set (order_items d). oi_id r \<noteq> item_uuid ev 0"
  shows "(\<exists>d' ord item.
            create_order_from_data ev data usr d = (d', Inr (ord, [item]))
          \<and> d_unit_price it = None
          \<and> unit_price item = Decimal 1800 (- 2) \<and> quantity item = 2
          \<and> oi_variant item = Some vid \<and> oi_order item = o_id ord
          \<and> subtotal ord = Decimal 3600 (- 2)
          \<and> dec_val (subtotal ord) = dec_val (unit_price item) * of_int (quantity item)
          \<and> stock_of d vid = Some 3
          \<and> stock_of d' vid = Some 1
          \<and> find (\<lambda>r. o_id r = o_id ord) (orders d') = Some ord
          \<and> find (\<lambda>r. oi_id r = oi_id item) (order_items d') = Some item)
       \<and> (\<forall>data' its'. d_items data' = Some (ItemList its')
              \<and> (\<exists>i \<in> set its'. d_unit_price i \<noteq> None)
            \<longrightarrow> (\<exists>m. create_order_from_data ev data' usr d = (d, Inl (ValidationError m))))"
proof (intro conjI allI impI)
  have iu: "d_unit_price it = None"
  proof (rule ccontr)
    assume "d_unit_price it \<noteq> None"
    then have "\<exists>i \<in> set [it]. d_unit_price i \<noteq> None" by simp
    from validate_rejects_item_errors[OF items item_errors_unit_price[OF this]] val
    show False by simp
  qed
  from resolve_addresses_tables[of ev nd usr sd d] ra have sc: "same_catalog d1 d" by simp
  then have o1: "orders d1 = orders d" and i1: "order_items d1 = order_items d"
    and v1: "variants d1 = variants d"
    by (simp_all add: same_catalog_def)
  have gv1: "get_variant vid d1 = Some (v, p)" using gv by (simp add: get_variant_same[OF sc])
  from place_order_single[OF gv1 st pr dc iv iq iu, of ev nd usr shipping billing] fo fi
  obtain d' ord item where
    po: "place_order ev nd usr shipping billing [it] d1 = (d', Inr (ord, [item]))"
    and f: "unit_price item = Decimal 1800 (- 2)" "quantity item = 2"
      "oi_order item = o_id ord" "oi_variant item = Some vid"
      "subtotal ord = Decimal 3600 (- 2)" "stock_of d' vid = Some 1"
      "find (\<lambda>r. o_id r = o_id ord) (orders d') = Some ord"
      "find (\<lambda>r. oi_id r = oi_id item) (order_items d') = Some item"
    unfolding o1 i1 by blast
  from body_reaches_items[OF val gc sh items, of ev d] ra po
  have "create_order_body ev data usr d = (d', Inr (ord, [item]))" by simp
  then have r: "create_order_from_data ev data usr d = (d', Inr (ord, [item]))"
    by (simp add: create_order_from_data_def atomic_def)
  have s0: "stock_of d vid = Some 3"
    using get_variant_Some(1)[OF gv] st by (simp add: stock_of_def)
  have dv: "dec_val (subtotal ord) = dec_val (unit_price item) * of_int (quantity item)"
    by (simp add: f dec_val_def)
  from r iu f s0 dv
  show "\<exists>d' ord item.
            create_order_from_data ev data usr d = (d', Inr (ord, [item]))
          \<and> d_unit_price it = None
          \<and> unit_price item = Decimal 1800 (- 2) \<and> quantity item = 2
          \<and> oi_variant item = Some vid \<and> oi_order item = o_id ord
          \<and> subtotal ord = Decimal 3600 (- 2)
          \<and> dec_val (subtotal ord) = dec_val (unit_price item) * of_int (quantity item)
          \<and> stock_of d vid = Some 3
          \<and> stock_of d' vid = Some 1
          \<and> find (\<lambda>r. o_id r = o_id ord) (orders d') = Some ord
          \<and> find (\<lambda>r. oi_id r = oi_id item) (order_items d') = Some item"
    by blast
next
  fix data' :: order_data and its' :: "item_data list"
  assume "d_items data' = Some (ItemList its') \<and> (\<exists>i \<in> set its'. d_unit_price i \<noteq> None)"
  then show "\<exists>m. create_order_from_data ev data' usr d = (d, Inl (ValidationError m))"
    using create_order_rejects_unit_price by blast
qed


lemma ex_catalog_facts:
  "get_variant ''v1'' ex_catalog = Some (ex_variant_blk, ex_product)"
  "stock ex_variant_blk = 3"
  "price ex_variant_blk = Decimal 2000 (- 2)"
  "v_discount_amount ex_variant_blk = Decimal 200 (- 2)"
  "orders ex_catalog = []"
  "order_items ex_catalog = []"
  by (simp_all add: get_variant_def ex_catalog_def empty_db_def ex_variant_blk_def
      ex_variant_wht_def ex_product_def)

lemma ex_payload_facts:
  "guest_consistency None (ex_payload\<lparr>d_use_separate_billing := Some False\<rparr>) = None"
  "d_shipping_address ex_payload = Some ex_address_data"
  "d_items ex_payload =
     Some (ItemList [\<lparr>variant_id = Some ''v1'', d_quantity = Some 2, d_unit_price = None\<rparr>])"
  by (simp_all add: guest_consistency_def authenticated_def guest_fields_def guest_get_def
      truthy_def ex_payload_def)

lemma ex_catalog_addresses:
  "\<exists>d1 shipping billing.
     resolve_addresses ex_env (ex_payload\<lparr>d_use_separate_billing := Some False\<rparr>) None
       ex_address_data ex_catalog = (d1, Inr (shipping, billing))"
  by (simp add: resolve_addresses_def create_or_get_address_def create_address_def
      authenticated_def first_missing_def addr_get_def ex_address_data_def Address_save_def
      Address_write_def new_address_def Let_def ex_catalog_def empty_db_def ex_payload_def)

theorem create_order_scenario_witness:
  "validate_order_data ex_payload = (True, [], ex_payload\<lparr>d_use_separate_billing := Some False\<rparr>)
   \<and> get_variant ''v1'' ex_catalog = Some (ex_variant_blk, ex_product)
   \<and> stock ex_variant_blk = 3 \<and> price ex_variant_blk = Decimal 2000 (- 2)
   \<and> v_discount_amount ex_variant_blk = Decimal 200 (- 2)
   \<and> (\<exists>d' ord item.
         create_order_from_data ex_env ex_payload None ex_catalog = (d', Inr (ord, [item]))
       \<and> unit_price item = Decimal 1800 (- 2) \<and> quantity item = 2
       \<and> subtotal ord = Decimal 3600 (- 2)
       \<and> stock_of ex_catalog ''v1'' = Some 3
       \<and> stock_of d' ''v1'' = Some 1)
   \<and> (\<exists>m. create_order_from_data ex_env
               (ex_payload\<lparr>d_items := Some (ItemList
                  [\<lparr>variant_id = Some ''v1'', d_quantity = Some 2,
                    d_unit_price = Some (Decimal 100 (- 2))\<rparr>])\<rparr>)
               None ex_catalog = (ex_catalog, Inl (ValidationError m)))"
proof -
  from ex_catalog_addresses obtain d1 shipping billing where
    ra: "resolve_addresses ex_env (ex_payload\<lparr>d_use_separate_billing := Some False\<rparr>) None
           ex_address_data ex_catalog = (d1, Inr (shipping, billing))"
    by blast
  have iv: "variant_id \<lparr>variant_id = Some ''v1'', d_quantity = Some 2, d_unit_price = None\<rparr>
              = Some ''v1''"
    and iq: "d_quantity \<lparr>variant_id = Some ''v1'', d_quantity = Some (2::int), d_unit_price = None\<rparr>
              = Some 2"
    by simp_all
  have fo: "\<forall>r \<in> set (orders ex_catalog). o_id r \<noteq> order_uuid ex_env
               \<and> order_number r \<noteq> ''ORD'' @ date_str ex_env @ str_nat (randint ex_env)"
    and fi: "\<forall>r \<in> set (order_items ex_catalog). oi_id r \<noteq> item_uuid ex_env 0"
    by (simp_all add: ex_catalog_facts)
  note t = create_order_scenario[OF ex_payload_valid ex_payload_facts(1) ex_payload_facts(2)
      ex_payload_facts(3) iv iq ra ex_catalog_facts(1) ex_catalog_facts(2) ex_catalog_facts(3)
      ex_catalog_facts(4) fo fi]
  from t have a: "\<exists>d' ord item.
         create_order_from_data ex_env ex_payload None ex_catalog = (d', Inr (ord, [item]))
       \<and> unit_price item = Decimal 1800 (- 2) \<and> quantity item = 2
       \<and> subtotal ord = Decimal 3600 (- 2)
       \<and> stock_of ex_catalog ''v1'' = Some 3
       \<and> stock_of d' ''v1'' = Some 1"
    by blast
  from t have "\<forall>data' its'. d_items data' = Some (ItemList its')
              \<and> (\<exists>i \<in> set its'. d_unit_price i \<noteq> None)
            \<longrightarrow> (\<exists>m. create_order_from_data ex_env data' None ex_catalog
                       = (ex_catalog, Inl (ValidationError m)))"
    by blast
  from this[rule_format, of "ex_payload\<lparr>d_items := Some (ItemList
                  [\<lparr>variant_id = Some ''v1'', d_quantity = Some 2,
                    d_unit_price = Some (Decimal 100 (- 2))\<rparr>])\<rparr>"
              "[\<lparr>variant_id = Some ''v1'', d_quantity = Some 2,
                    d_unit_price = Some (Decimal 100 (- 2))\<rparr>]"]
  have b: "\<exists>m. create_order_from_data ex_env
               (ex_payload\<lparr>d_items := Some (ItemList
                  [\<lparr>variant_id = Some ''v1'', d_quantity = Some 2,
                    d_unit_price = Some (Decimal 100 (- 2))\<rparr>])\<rparr>)
               None ex_catalog = (ex_catalog, Inl (ValidationError m))"
    by simp
  from a b ex_payload_valid ex_catalog_facts show ?thesis by simp
qed

section \<open>Order numbers\<close>

text \<open>
  C6. \<^verbatim>\<open>Order.save\<close> gives an order without a number the number
  \<open>ORD\<close> + date + random suffix, and does not look at the numbers already stored: when
  another order already has that number, the write fails on the unique column with an
  \<^verbatim>\<open>IntegrityError\<close> and the database is unchanged. No new number is drawn.
\<close>

theorem order_number_collision:
  assumes e: "order_number self = []"
    and m: "r \<in> set (orders d)" and k: "o_id r \<noteq> o_id self"
    and n: "order_number r = ''ORD'' @ date_str ev @ str_nat (randint ev)"
  shows "order_number (Order_assign ev self) = ''ORD'' @ date_str ev @ str_nat (randint ev)
       \<and> (\<exists>m. Order_save ev force_insert self d = (d, Inl (IntegrityError m)))"
proof -
  have a: "order_number (Order_assign ev self) = ''ORD'' @ date_str ev @ str_nat (randint ev)"
    by (rule Order_assign_number[OF e])
  from m k n a
  have c: "\<exists>r \<in> set (orders d). o_id r \<noteq> o_id (Order_assign ev self)
             \<and> order_number r = order_number (Order_assign ev self)"
    by (simp add: Order_assign_money) blast
  have "\<exists>m. Order_write force_insert (Order_assign ev self) d = (d, Inl (IntegrityError m))"
    unfolding Order_write_def using c
    by (cases "force_insert \<and> (\<exists>r \<in> set (orders d). o_id r = o_id (Order_assign ev self))")
       (simp_all only: if_True if_False simp_thms, blast+)
  with a show ?thesis by (simp add: Order_save_def)
qed

lemma ex_guest_addresses_any:
  assumes "addresses d = []"
  shows "\<exists>d1 shipping billing.
     resolve_addresses ex_env (ex_payload\<lparr>d_use_separate_billing := Some False\<rparr>) None
       ex_address_data d = (d1, Inr (shipping, billing))"
  using assms
  by (simp add: resolve_addresses_def create_or_get_address_def create_address_def
      authenticated_def first_missing_def addr_get_def ex_address_data_def Address_save_def
      Address_write_def new_address_def Let_def ex_payload_def)

lemma ex_taken_facts:
  "addresses ex_taken_db = []"
  "orders ex_taken_db = [ex_stored_order\<lparr>o_id := ''o0''\<rparr>]"
  "get_variant ''v1'' ex_taken_db = Some (ex_variant_blk, ex_product)"
  by (simp_all add: ex_taken_db_def get_variant_def ex_catalog_def empty_db_def
      ex_variant_blk_def ex_variant_wht_def ex_product_def)

theorem order_number_collision_witness:
  "order_number ex_stored_order = ''ORD202401011234''
   \<and> Order_save ex_env True (ex_order\<lparr>o_id := ''o3''\<rparr>) ex_pending_db =
       (ex_pending_db, Inl (IntegrityError ''orders.order_number''))
   \<and> (\<exists>m. create_order_from_data ex_env ex_payload None ex_taken_db =
             (ex_taken_db, Inl (IntegrityError m)))"
proof -
  have e: "order_number (ex_order\<lparr>o_id := ''o3''\<rparr>) = []" by (simp add: ex_order_def)
  have m: "ex_stored_order \<in> set (orders ex_pending_db)" by (simp add: ex_pending_db_def)
  have k: "o_id ex_stored_order \<noteq> o_id (ex_order\<lparr>o_id := ''o3''\<rparr>)"
    by (simp add: ex_stored_order_def ex_order_def)
  have n: "order_number ex_stored_order = ''ORD'' @ date_str ex_env @ str_nat (randint ex_env)"
    by (simp add: ex_stored_order_def ex_env_def str_nat_1234)
  have n': "order_number ex_stored_order = ''ORD202401011234''"
    by (simp add: ex_stored_order_def)
  from order_number_collision[OF e m k n, of True]
  obtain msg where s: "Order_save ex_env True (ex_order\<lparr>o_id := ''o3''\<rparr>) ex_pending_db =
                         (ex_pending_db, Inl (IntegrityError msg))"
    by blast
  have "\<not> (\<exists>r \<in> set (orders ex_pending_db). o_id r = o_id (Order_assign ex_env (ex_order\<lparr>o_id := ''o3''\<rparr>)))"
    by (simp add: ex_pending_db_def Order_assign_money ex_stored_order_def ex_order_def)
  with s have "msg = ''orders.order_number''"
    unfolding Order_save_def Order_write_def by (simp split: if_splits)
  with s have first: "Order_save ex_env True (ex_order\<lparr>o_id := ''o3''\<rparr>) ex_pending_db =
       (ex_pending_db, Inl (IntegrityError ''orders.order_number''))"
    by simp
  let ?nd = "ex_payload\<lparr>d_use_separate_billing := Some False\<rparr>"
  let ?it = "\<lparr>variant_id = Some ''v1'', d_quantity = Some 2, d_unit_price = None\<rparr>"
  from ex_guest_addresses_any[OF ex_taken_facts(1)] obtain d1 shipping billing where
    ra: "resolve_addresses ex_env ?nd None ex_address_data ex_taken_db
           = (d1, Inr (shipping, billing))"
    by blast
  from resolve_addresses_tables[of ex_env ?nd None ex_address_data ex_taken_db] ra
  have sc: "same_catalog d1 ex_taken_db" by simp
  then have o1: "orders d1 = orders ex_taken_db" by (simp add: same_catalog_def)
  obtain pend sub where
    "collect_items ex_taken_db [?it] [] (Decimal 0 (- 2)) = Inr ([pend], sub)"
    by (simp add: check_item_def ex_taken_facts get_quantity_def ex_variant_blk_def)
  then have ci: "collect_items d1 [?it] [] (Decimal 0 (- 2)) = Inr ([pend], sub)"
    by (simp only: collect_items_same[OF sc])
  let ?x = "new_order ex_env ?nd None shipping billing sub"
  have m2: "ex_stored_order\<lparr>o_id := ''o0''\<rparr> \<in> set (orders d1)"
    by (simp add: o1 ex_taken_facts)
  have k2: "o_id (ex_stored_order\<lparr>o_id := ''o0''\<rparr>) \<noteq> o_id ?x"
    by (simp add: new_order_fields ex_env_def)
  have n2: "order_number (ex_stored_order\<lparr>o_id := ''o0''\<rparr>) =
              ''ORD'' @ date_str ex_env @ str_nat (randint ex_env)"
    by (simp add: n)
  from order_number_collision[OF new_order_fields(2) m2 k2 n2, of True]
  obtain msg2 where "Order_save ex_env True ?x d1 = (d1, Inl (IntegrityError msg2))"
    by blast
  with ci have "place_order ex_env ?nd None shipping billing [?it] d1
                  = (d1, Inl (IntegrityError msg2))"
    by (simp add: place_order_def)
  with body_reaches_items[OF ex_payload_valid ex_payload_facts(1) ex_payload_facts(2)
      ex_payload_facts(3), of ex_env ex_taken_db] ra
  have "create_order_body ex_env ex_payload None ex_taken_db = (d1, Inl (IntegrityError msg2))"
    by simp
  from create_order_of_body[OF this] first n' show ?thesis by blast
qed

end
